theory Spec2Isabelle
  imports Main
begin

section \<open>The ledger of transactions/views.py\<close>

text \<open>
  The views of the banking application read and write three tables through Django's
  object-relational mapper: users, bank accounts and transactions. The embedding keeps
  the tables in a record that every view takes and returns, next to the two other
  effects of the views: the mails handed to the mail backend and the flash messages
  attached to the requesting user's session. An exception that no view catches ends the
  request; it is the response \<open>Raised\<close>, and the tables are as the view left them at the
  raise, since no view opens a database transaction.

  Amounts and balances are decimals with two places; they are counted in hundredths,
  as integers.
\<close>

subsection \<open>Data\<close>

datatype exception =
    NameError string
  | AttributeError string
  | ValueError
  | RelatedObjectDoesNotExist
  | Http404

text \<open>A \<open>datetime\<close>: the calendar day (as an ordinal) and the time within the day.\<close>

record pydatetime =
  dt_date :: nat
  dt_time :: nat

text \<open>
  A row of \<open>auth.User\<close>. \<open>user.account\<close> is the reverse side of the one-to-one
  field of the bank account; a user without a bank account has none.
\<close>

record user =
  username :: string
  account_id :: "nat option"

text \<open>A bank account as the views hold it in memory: a copy of the row.\<close>

record bank_account =
  acc_id :: nat
  balance :: int

record transaction =
  tid :: nat
  account :: nat
  amount :: int
  balance_after_transaction :: int
  transaction_type :: int
  timestamp :: pydatetime
  loan_approve :: bool

record email =
  email_to :: string
  email_amount :: int
  email_subject :: string
  email_template :: string

datatype level = SUCCESS | ERROR

datatype message_text =
    Deposited int
  | Withdrawn int
  | LoanSubmitted int
  | LoanAmountGreater int
  | RecipientDoesNotExist string
  | InsufficientBalance

record message =
  msg_user :: string
  msg_level :: level
  msg_text :: message_text

record state =
  users :: "string \<rightharpoonup> user"
  accounts :: "nat \<rightharpoonup> int"
  transactions :: "transaction list"
  next_tid :: nat
  outbox :: "email list"
  messages :: "message list"

text \<open>
  A request as a view method receives it: the authenticated user (the views that read or
  write the ledger through \<open>LoginRequiredMixin\<close> are entered only with one) and the
  query parameters.
\<close>

record request =
  user :: user
  GET :: "string \<rightharpoonup> string"

datatype response =
    Redirect string
  | HttpResponse string
  | Raised exception

subsection \<open>Constants\<close>

definition WITHDRAWAL :: int where "WITHDRAWAL = 2"
definition LOAN :: int where "LOAN = 3"
definition LOAN_PAID :: int where "LOAN_PAID = 4"
definition TRANSFER :: int where "TRANSFER = 5"
definition RECEIVE_MONEY :: int where "RECEIVE_MONEY = 6"

subsection \<open>The module's names\<close>

text \<open>
  The names that the import statements and the definitions of views.py bind at module
  level. A name that is read and is not among them raises \<open>NameError\<close>.
\<close>

definition module_names :: "string list" where
  "module_names =
    [''render'', ''get_object_or_404'', ''redirect'', ''LoginRequiredMixin'', ''messages'',
     ''reverse_lazy'', ''CreateView'', ''ListView'', ''View'', ''Transaction'',
     ''DEPOSIT'', ''WITHDRAWAL'', ''LOAN'', ''LOAN_PAID'', ''TRANSFER'', ''RECEIVE_MONEY'',
     ''DepositForm'', ''WithdrawForm'', ''LoanRequestForm'', ''TransferMoneyForm'',
     ''datetime'', ''Sum'', ''User'', ''timezone'', ''EmailMessage'', ''EmailMultiAlternatives'',
     ''render_to_string'', ''send_transaction_email'', ''TransactionCreateMixin'',
     ''DepositMoneyView'', ''WithdrawMoneyView'', ''LoanRequestView'',
     ''TransactionReportView'', ''PayLoanView'', ''LoanListView'', ''TransferMoneyView'']"

definition lookup_name :: "string \<Rightarrow> exception + unit" where
  "lookup_name n = (if n \<in> set module_names then Inr () else Inl (NameError n))"

text \<open>
  The two attributes that views.py reads from a parsed \<open>datetime\<close>: the method
  \<open>date\<close>, which gives the calendar day, and \<open>dend\<close>, which no \<open>datetime\<close> has.
\<close>

definition datetime_attr :: "pydatetime \<Rightarrow> string \<Rightarrow> exception + nat" where
  "datetime_attr d n = (if n = ''date'' then Inr (dt_date d) else Inl (AttributeError n))"

subsection \<open>The object-relational mapper\<close>

text \<open>\<open>user.account\<close>: the bank account of a user, read from its row.\<close>

definition get_user_account :: "state \<Rightarrow> user \<Rightarrow> exception + bank_account" where
  "get_user_account st u =
    (case account_id u of
       None \<Rightarrow> Inl RelatedObjectDoesNotExist
     | Some i \<Rightarrow>
        (case accounts st i of
           None \<Rightarrow> Inl RelatedObjectDoesNotExist
         | Some b \<Rightarrow> Inr \<lparr>acc_id = i, balance = b\<rparr>))"

text \<open>\<open>transaction.account\<close>: the bank account a transaction refers to.\<close>

definition transaction_account :: "state \<Rightarrow> transaction \<Rightarrow> exception + bank_account" where
  "transaction_account st t =
    (case accounts st (account t) of
       None \<Rightarrow> Inl RelatedObjectDoesNotExist
     | Some b \<Rightarrow> Inr \<lparr>acc_id = account t, balance = b\<rparr>)"

text \<open>\<open>account.save()\<close> writes the in-memory copy over the row.\<close>

definition save_account :: "state \<Rightarrow> bank_account \<Rightarrow> state" where
  "save_account st a = st\<lparr>accounts := (accounts st)(acc_id a \<mapsto> balance a)\<rparr>"

text \<open>\<open>Transaction.objects.create\<close>: a new row under the next primary key.\<close>

definition create_transaction ::
  "state \<Rightarrow> nat \<Rightarrow> int \<Rightarrow> int \<Rightarrow> pydatetime \<Rightarrow> int \<Rightarrow> bool \<Rightarrow> state" where
  "create_transaction st a ty amt ts bal appr =
    st\<lparr>transactions := transactions st @
          [\<lparr>tid = next_tid st, account = a, amount = amt, balance_after_transaction = bal,
            transaction_type = ty, timestamp = ts, loan_approve = appr\<rparr>],
       next_tid := Suc (next_tid st)\<rparr>"

text \<open>\<open>transaction.save()\<close> writes every field of the copy over the row of its key.\<close>

definition save_transaction :: "state \<Rightarrow> transaction \<Rightarrow> state" where
  "save_transaction st t =
    st\<lparr>transactions := map (\<lambda>x. if tid x = tid t then t else x) (transactions st)\<rparr>"

subsection \<open>Mails and flash messages\<close>

text \<open>
  A mail is handed to the backend and kept in the outbox; its delivery is outside the
  views. A flash message goes to the session of the requesting user. The texts of the
  messages are kept by kind, with the amount or name they mention.
\<close>

definition send_transaction_email :: "state \<Rightarrow> user \<Rightarrow> int \<Rightarrow> string \<Rightarrow> string \<Rightarrow> state" where
  "send_transaction_email st u amt subj template =
    st\<lparr>outbox := outbox st @
          [\<lparr>email_to = username u, email_amount = amt, email_subject = subj,
            email_template = template\<rparr>]\<rparr>"

definition add_message :: "state \<Rightarrow> request \<Rightarrow> level \<Rightarrow> message_text \<Rightarrow> state" where
  "add_message st req l m =
    st\<lparr>messages := messages st @
          [\<lparr>msg_user = username (user req), msg_level = l, msg_text = m\<rparr>]\<rparr>"

subsection \<open>Creating a transaction from a form\<close>

text \<open>
  Modelled from the spec: transactions/forms.py and transactions/models.py are not among
  the sources. \<open>CreateView.form_valid\<close> saves the form and redirects to the success
  URL; by the specification the saved form is a transaction of the view's initial type
  on the requesting account, with the validated amount, the account's balance at that
  moment as snapshot, and the approval flag unset.
\<close>

definition super_form_valid ::
  "state \<Rightarrow> bank_account \<Rightarrow> int \<Rightarrow> int \<Rightarrow> pydatetime \<Rightarrow> state \<times> response" where
  "super_form_valid st a ty amt now =
    (create_transaction st (acc_id a) ty amt now (balance a) False,
     Redirect ''transaction_report'')"

subsection \<open>The views\<close>


definition WithdrawMoneyView_form_valid ::
  "state \<Rightarrow> request \<Rightarrow> int \<Rightarrow> pydatetime \<Rightarrow> state \<times> response" where
  "WithdrawMoneyView_form_valid st req amt now =
    (case get_user_account st (user req) of
       Inl e \<Rightarrow> (st, Raised e)
     | Inr a \<Rightarrow>
        (let a = a\<lparr>balance := balance a - amt\<rparr>;
             st = save_account st a;
             st = add_message st req SUCCESS (Withdrawn amt);
             st = send_transaction_email st (user req) amt ''Withdrawl Message''
                    ''transactions/withdraw_email.html''
         in super_form_valid st a WITHDRAWAL amt now))"

text \<open>The count of line 91: the filter on account, type 3 and approval flag.\<close>

definition current_loan_count :: "state \<Rightarrow> nat \<Rightarrow> nat" where
  "current_loan_count st a =
    length (filter (\<lambda>t. account t = a \<and> transaction_type t = 3 \<and> loan_approve t)
      (transactions st))"

definition LoanRequestView_form_valid ::
  "state \<Rightarrow> request \<Rightarrow> int \<Rightarrow> pydatetime \<Rightarrow> state \<times> response" where
  "LoanRequestView_form_valid st req amt now =
    (case get_user_account st (user req) of
       Inl e \<Rightarrow> (st, Raised e)
     | Inr a \<Rightarrow>
        if current_loan_count st (acc_id a) \<ge> 3 then
          (case lookup_name ''HttpResponse'' of
             Inl e \<Rightarrow> (st, Raised e)
           | Inr _ \<Rightarrow> (st, HttpResponse ''You have cross the loan limits''))
        else
          (let st = add_message st req SUCCESS (LoanSubmitted amt);
               st = send_transaction_email st (user req) amt ''Loan Request''
                      ''transactions/loan_email.html''
           in super_form_valid st a LOAN amt now))"

text \<open>Python's truth value of \<open>GET.get(key)\<close>: present and not empty.\<close>

definition truthy :: "string option \<Rightarrow> bool" where
  "truthy s = (case s of None \<Rightarrow> False | Some x \<Rightarrow> x \<noteq> [])"

text \<open>\<open>aggregate(Sum('amount'))\<close>: \<open>None\<close> over no rows.\<close>

text \<open>The string behind a truthy \<open>GET.get(key)\<close>.\<close>

definition str_of :: "string option \<Rightarrow> string" where
  "str_of s = (case s of None \<Rightarrow> [] | Some x \<Rightarrow> x)"

definition aggregate_Sum_amount :: "transaction list \<Rightarrow> int option" where
  "aggregate_Sum_amount ts = (if ts = [] then None else Some (sum_list (map amount ts)))"

definition in_range :: "nat \<Rightarrow> nat \<Rightarrow> transaction \<Rightarrow> bool" where
  "in_range start_date end_date t =
    (start_date \<le> dt_date (timestamp t) \<and> dt_date (timestamp t) \<le> end_date)"

text \<open>
  \<open>TransactionReportView.get_queryset\<close>: the rows to list and the value left in
  \<open>self.balance\<close>. \<open>strptime\<close> is the library's parser for the format
  \<open>%Y-%m-%d\<close>, \<open>None\<close> where it raises \<open>ValueError\<close>.
\<close>

definition TransactionReportView_get_queryset ::
  "(string \<Rightarrow> pydatetime option) \<Rightarrow> state \<Rightarrow> request \<Rightarrow>
     exception + (transaction list \<times> int option)" where
  "TransactionReportView_get_queryset strptime st req =
    (case get_user_account st (user req) of
       Inl e \<Rightarrow> Inl e
     | Inr a \<Rightarrow>
        (let queryset = filter (\<lambda>t. account t = acc_id a) (transactions st);
             start_date_str = GET req ''start_date'';
             end_date_str = GET req ''end_date''
         in if truthy start_date_str \<and> truthy end_date_str then
              (case strptime (str_of start_date_str) of
                 None \<Rightarrow> Inl ValueError
               | Some d1 \<Rightarrow>
                  (case datetime_attr d1 ''date'' of
                     Inl e \<Rightarrow> Inl e
                   | Inr start_date \<Rightarrow>
                      (case strptime (str_of end_date_str) of
                         None \<Rightarrow> Inl ValueError
                       | Some d2 \<Rightarrow>
                          (case datetime_attr d2 ''dend'' of
                             Inl e \<Rightarrow> Inl e
                           | Inr end_date \<Rightarrow>
                              Inr (filter (in_range start_date end_date) queryset,
                                   aggregate_Sum_amount
                                     (filter (in_range start_date end_date)
                                        (transactions st)))))))
            else Inr (queryset, Some (balance a))))"

definition PayLoanView_get :: "state \<Rightarrow> request \<Rightarrow> nat \<Rightarrow> state \<times> response" where
  "PayLoanView_get st req loan_id =
    (case find (\<lambda>t. tid t = loan_id) (transactions st) of
       None \<Rightarrow> (st, Raised Http404)
     | Some loan \<Rightarrow>
        if loan_approve loan then
          (case transaction_account st loan of
             Inl e \<Rightarrow> (st, Raised e)
           | Inr user_account \<Rightarrow>
              if amount loan < balance user_account then
                (let user_account = user_account\<lparr>balance := balance user_account - amount loan\<rparr>;
                     loan = loan\<lparr>balance_after_transaction := balance user_account\<rparr>;
                     st = save_account st user_account;
                     loan = loan\<lparr>loan_approve := True\<rparr>;
                     loan = loan\<lparr>transaction_type := LOAN_PAID\<rparr>;
                     st = save_transaction st loan
                 in (st, Redirect ''loan_list''))
              else
                (add_message st req ERROR (LoanAmountGreater (amount loan)),
                 Redirect ''loan_list''))
        else (st, Redirect ''loan_list''))"

definition LoanListView_get_queryset :: "state \<Rightarrow> request \<Rightarrow> exception + transaction list" where
  "LoanListView_get_queryset st req =
    (case get_user_account st (user req) of
       Inl e \<Rightarrow> Inl e
     | Inr a \<Rightarrow>
        Inr (filter (\<lambda>t. account t = acc_id a \<and> transaction_type t = 3) (transactions st)))"

text \<open>
  \<open>TransferMoneyView.post\<close>. The form is the cleaned data of a valid
  \<open>TransferMoneyForm\<close> (recipient's user name and amount), or \<open>None\<close> when
  \<open>is_valid()\<close> is false; then \<open>post\<close> returns no response, which Django refuses with
  \<open>ValueError\<close>. \<open>now1\<close> and \<open>now2\<close> are the two readings of the clock.
\<close>

definition TransferMoneyView_post ::
  "state \<Rightarrow> request \<Rightarrow> (string \<times> int) option \<Rightarrow> pydatetime \<Rightarrow> pydatetime \<Rightarrow>
     state \<times> response" where
  "TransferMoneyView_post st req form now1 now2 =
    (case form of
       None \<Rightarrow> (st, Raised ValueError)
     | Some (recipient_username, amt) \<Rightarrow>
        (case users st recipient_username of
           None \<Rightarrow>
             (add_message st req ERROR (RecipientDoesNotExist recipient_username),
              Redirect ''transfer'')
         | Some recipient_user \<Rightarrow>
            (case get_user_account st recipient_user of
               Inl e \<Rightarrow> (st, Raised e)
             | Inr recipient_account \<Rightarrow>
                (case get_user_account st (user req) of
                   Inl e \<Rightarrow> (st, Raised e)
                 | Inr sender_account \<Rightarrow>
                    if balance sender_account < amt then
                      (add_message st req ERROR InsufficientBalance, Redirect ''transfer'')
                    else
                      (let sender_account = sender_account\<lparr>balance := balance sender_account - amt\<rparr>;
                           st = save_account st sender_account;
                           st = send_transaction_email st (user req) amt ''Send Money''
                                  ''transactions/send_money.html'';
                           recipient_account =
                             recipient_account\<lparr>balance := balance recipient_account + amt\<rparr>;
                           st = save_account st recipient_account;
                           st = send_transaction_email st recipient_user amt ''Recived Money''
                                  ''transactions/receive_money.html'';
                           st = create_transaction st (acc_id sender_account) TRANSFER amt now1
                                  (balance sender_account) False;
                           st = create_transaction st (acc_id recipient_account) RECEIVE_MONEY
                                  amt now2 (balance recipient_account) False
                       in (st, Redirect ''transfer''))))))"

subsection \<open>Sequences of requests\<close>








subsection \<open>Example ledgers\<close>

text \<open>
  Two users with one account each: alice holds 1000.00, bob holds nothing. The days are
  the ordinals of 2024-01-01 and 2024-01-31.
\<close>

definition alice :: user where
  "alice = \<lparr>username = ''alice'', account_id = Some 1\<rparr>"

definition bob :: user where
  "bob = \<lparr>username = ''bob'', account_id = Some 2\<rparr>"

definition t0 :: pydatetime where
  "t0 = \<lparr>dt_date = 738886, dt_time = 0\<rparr>"

definition t1 :: pydatetime where
  "t1 = \<lparr>dt_date = 738916, dt_time = 0\<rparr>"

definition request_of :: "user \<Rightarrow> request" where
  "request_of u = \<lparr>user = u, GET = Map.empty\<rparr>"

definition ranged_request :: request where
  "ranged_request =
    \<lparr>user = alice,
     GET = [''start_date'' \<mapsto> ''2024-01-01'', ''end_date'' \<mapsto> ''2024-01-31'']\<rparr>"

definition example_strptime :: "string \<Rightarrow> pydatetime option" where
  "example_strptime s =
    (if s = ''2024-01-01'' then Some t0 else if s = ''2024-01-31'' then Some t1 else None)"

definition ledger0 :: state where
  "ledger0 =
    \<lparr>users = [''alice'' \<mapsto> alice, ''bob'' \<mapsto> bob], accounts = [1 \<mapsto> 100000, 2 \<mapsto> 0],
     transactions = [], next_tid = 1, outbox = [], messages = []\<rparr>"

text \<open>A loan of alice's account, requested when the account held 1000.00.\<close>

definition loan_row :: "nat \<Rightarrow> int \<Rightarrow> bool \<Rightarrow> transaction" where
  "loan_row i amt appr =
    \<lparr>tid = i, account = 1, amount = amt, balance_after_transaction = 100000,
     transaction_type = 3, timestamp = t0, loan_approve = appr\<rparr>"

definition ledger_loans :: state where
  "ledger_loans =
    ledger0\<lparr>transactions :=
        [loan_row 1 5000 True, loan_row 2 200000 True, loan_row 3 5000 False,
         loan_row 4 200000 False],
      next_tid := 5\<rparr>"

definition ledger_three_loans :: state where
  "ledger_three_loans =
    ledger0\<lparr>transactions := [loan_row 1 5000 True, loan_row 2 5000 True, loan_row 3 5000 True],
      next_tid := 4\<rparr>"

text \<open>A third user, dave, who has no bank account.\<close>

definition dave :: user where
  "dave = \<lparr>username = ''dave'', account_id = None\<rparr>"

definition ledger_dave :: state where
  "ledger_dave =
    ledger0\<lparr>users := [''alice'' \<mapsto> alice, ''bob'' \<mapsto> bob, ''dave'' \<mapsto> dave]\<rparr>"

text \<open>A deposit of alice's account on which the approval flag has been set.\<close>

definition flagged_deposit :: transaction where
  "flagged_deposit =
    \<lparr>tid = 1, account = 1, amount = 5000, balance_after_transaction = 100000,
     transaction_type = 1, timestamp = t0, loan_approve = True\<rparr>"

definition ledger_flagged_deposit :: state where
  "ledger_flagged_deposit = ledger0\<lparr>transactions := [flagged_deposit], next_tid := 2\<rparr>"

section \<open>Properties\<close>

subsection \<open>What the primitives change\<close>

lemma frame_add_message [simp]:
  "users (add_message st req l m) = users st"
  "accounts (add_message st req l m) = accounts st"
  "transactions (add_message st req l m) = transactions st"
  "next_tid (add_message st req l m) = next_tid st"
  "outbox (add_message st req l m) = outbox st"
  "messages (add_message st req l m) =
     messages st @ [\<lparr>msg_user = username (user req), msg_level = l, msg_text = m\<rparr>]"
  by (simp_all add: add_message_def)

lemma frame_send_transaction_email [simp]:
  "users (send_transaction_email st u a s t) = users st"
  "accounts (send_transaction_email st u a s t) = accounts st"
  "transactions (send_transaction_email st u a s t) = transactions st"
  "next_tid (send_transaction_email st u a s t) = next_tid st"
  "messages (send_transaction_email st u a s t) = messages st"
  by (simp_all add: send_transaction_email_def)

lemma frame_save_account [simp]:
  "users (save_account st a) = users st"
  "accounts (save_account st a) = (accounts st)(acc_id a \<mapsto> balance a)"
  "transactions (save_account st a) = transactions st"
  "next_tid (save_account st a) = next_tid st"
  "outbox (save_account st a) = outbox st"
  "messages (save_account st a) = messages st"
  by (simp_all add: save_account_def)

lemma frame_create_transaction [simp]:
  "users (create_transaction st a ty amt ts bal appr) = users st"
  "accounts (create_transaction st a ty amt ts bal appr) = accounts st"
  "transactions (create_transaction st a ty amt ts bal appr) = transactions st @
     [\<lparr>tid = next_tid st, account = a, amount = amt, balance_after_transaction = bal,
       transaction_type = ty, timestamp = ts, loan_approve = appr\<rparr>]"
  "next_tid (create_transaction st a ty amt ts bal appr) = Suc (next_tid st)"
  "outbox (create_transaction st a ty amt ts bal appr) = outbox st"
  "messages (create_transaction st a ty amt ts bal appr) = messages st"
  by (simp_all add: create_transaction_def)

lemma frame_save_transaction [simp]:
  "users (save_transaction st t) = users st"
  "accounts (save_transaction st t) = accounts st"
  "transactions (save_transaction st t) =
     map (\<lambda>x. if tid x = tid t then t else x) (transactions st)"
  "next_tid (save_transaction st t) = next_tid st"
  "outbox (save_transaction st t) = outbox st"
  "messages (save_transaction st t) = messages st"
  by (simp_all add: save_transaction_def)

lemma get_user_account_Inr:
  "get_user_account st u = Inr a \<Longrightarrow>
     account_id u = Some (acc_id a) \<and> accounts st (acc_id a) = Some (balance a)"
  by (auto simp: get_user_account_def split: option.splits)

lemma get_user_account_Inl:
  "get_user_account st u = Inl e \<Longrightarrow> e = RelatedObjectDoesNotExist"
  by (auto simp: get_user_account_def split: option.splits)

lemma find_tid: "find (\<lambda>t. tid t = i) ts = Some L \<Longrightarrow> tid L = i \<and> L \<in> set ts"
  by (auto simp: find_Some_iff)

lemma find_map_replace:
  "find (\<lambda>t. tid t = i) ts = Some L \<Longrightarrow> tid L' = i \<Longrightarrow>
   find (\<lambda>t. tid t = i) (map (\<lambda>x. if tid x = i then L' else x) ts) = Some L'"
  by (induction ts) (auto split: if_splits)

lemmas examples =
  alice_def bob_def t0_def t1_def request_of_def ranged_request_def example_strptime_def
  ledger0_def loan_row_def ledger_loans_def ledger_three_loans_def
  dave_def ledger_dave_def flagged_deposit_def ledger_flagged_deposit_def

subsection \<open>Transfers\<close>

text \<open>
  The sender's account \<open>S\<close> and the recipient's account \<open>R\<close>
  are two different accounts and the amount is at most the sender's balance. Then the
  transfer succeeds, the sender's balance goes down by the amount, the recipient's goes up
  by the amount, no other balance changes, and exactly two rows are added to the
  transactions: a TRANSFER on \<open>S\<close> and a RECEIVE_MONEY on \<open>R\<close>, both of the amount, each
  with the new balance of its account as snapshot.
\<close>

theorem transfer_between_distinct_accounts:
  assumes S: "get_user_account st (user req) = Inr S"
    and u: "users st recipient_username = Some u"
    and R: "get_user_account st u = Inr R"
    and ne: "acc_id S \<noteq> acc_id R"
    and le: "amt \<le> balance S"
  shows "\<exists>st'.
       TransferMoneyView_post st req (Some (recipient_username, amt)) now1 now2 =
         (st', Redirect ''transfer'') \<and>
       accounts st' (acc_id S) = Some (balance S - amt) \<and>
       accounts st' (acc_id R) = Some (balance R + amt) \<and>
       (\<forall>i. i \<noteq> acc_id S \<and> i \<noteq> acc_id R \<longrightarrow> accounts st' i = accounts st i) \<and>
       transactions st' = transactions st @
         [\<lparr>tid = next_tid st, account = acc_id S, amount = amt,
           balance_after_transaction = balance S - amt, transaction_type = TRANSFER,
           timestamp = now1, loan_approve = False\<rparr>,
          \<lparr>tid = Suc (next_tid st), account = acc_id R, amount = amt,
           balance_after_transaction = balance R + amt, transaction_type = RECEIVE_MONEY,
           timestamp = now2, loan_approve = False\<rparr>]"
  using ne le by (simp add: TransferMoneyView_post_def S u R Let_def)

text \<open>
  Alice sends 300.00 of her 1000.00 to bob: 700.00 and 300.00 remain, and the two rows
  are the ledger's only ones.
\<close>

theorem transfer_between_distinct_accounts_witness:
  "get_user_account ledger0 (user (request_of alice)) = Inr \<lparr>acc_id = 1, balance = 100000\<rparr> \<and>
   users ledger0 ''bob'' = Some bob \<and>
   get_user_account ledger0 bob = Inr \<lparr>acc_id = 2, balance = 0\<rparr> \<and>
   (\<exists>st'. TransferMoneyView_post ledger0 (request_of alice) (Some (''bob'', 30000)) t0 t1
        = (st', Redirect ''transfer'') \<and>
      accounts st' 1 = Some 70000 \<and> accounts st' 2 = Some 30000 \<and>
      transactions st' =
        [\<lparr>tid = 1, account = 1, amount = 30000, balance_after_transaction = 70000,
           transaction_type = TRANSFER, timestamp = t0, loan_approve = False\<rparr>,
         \<lparr>tid = 2, account = 2, amount = 30000, balance_after_transaction = 30000,
           transaction_type = RECEIVE_MONEY, timestamp = t1, loan_approve = False\<rparr>])"
proof -
  have S: "get_user_account ledger0 (user (request_of alice)) = Inr \<lparr>acc_id = 1, balance = 100000\<rparr>"
    by (simp add: get_user_account_def examples)
  have u: "users ledger0 ''bob'' = Some bob"
    by (simp add: examples)
  have R: "get_user_account ledger0 bob = Inr \<lparr>acc_id = 2, balance = 0\<rparr>"
    by (simp add: get_user_account_def examples)
  have tx: "transactions ledger0 = []" "next_tid ledger0 = 1"
    by (simp_all add: examples)
  show ?thesis
    using transfer_between_distinct_accounts [OF S u R, of 30000 t0 t1] S u R
    by (auto simp: tx numeral_2_eq_2)
qed

text \<open>
  C1 does not hold of the code where the recipient's user name is the sender's own. The
  view holds two copies of the one account; it saves the debited copy and then the
  credited copy, which still carries the balance read before the debit, so the debit is
  lost. Alice sending 300.00 of her 1000.00 to alice is left with 1300.00, not with the
  700.00 that the debit alone, or the 1000.00 that debit and credit together, would
  leave.
\<close>

theorem transfer_to_self_at_failing_input:
  "get_user_account ledger0 (user (request_of alice)) = Inr \<lparr>acc_id = 1, balance = 100000\<rparr> \<and>
   users ledger0 ''alice'' = Some alice \<and>
   get_user_account ledger0 alice = Inr \<lparr>acc_id = 1, balance = 100000\<rparr> \<and>
   (30000::int) \<le> 100000 \<and>
   snd (TransferMoneyView_post ledger0 (request_of alice) (Some (''alice'', 30000)) t0 t0)
     = Redirect ''transfer'' \<and>
   accounts (fst (TransferMoneyView_post ledger0 (request_of alice) (Some (''alice'', 30000)) t0 t0)) 1
     = Some 130000 \<and>
   accounts (fst (TransferMoneyView_post ledger0 (request_of alice) (Some (''alice'', 30000)) t0 t0)) 1
     \<noteq> Some (100000 - 30000) \<and>
   map balance_after_transaction
     (transactions
        (fst (TransferMoneyView_post ledger0 (request_of alice) (Some (''alice'', 30000)) t0 t0)))
     = [70000, 130000]"
  by (simp add: TransferMoneyView_post_def get_user_account_def Let_def examples)

text \<open>
  A transfer to a user name that no user has reports that the recipient does not
  exist; a transfer of more than the sender's balance to a recipient with an account
  reports the insufficient balance. In both cases, and also where the recipient of the
  excessive amount has no account and the request ends in an exception, every balance
  and the transactions are as before and no mail is sent.
\<close>

theorem transfer_failure:
  "(users st recipient_username = None \<longrightarrow>
      TransferMoneyView_post st req (Some (recipient_username, amt)) now1 now2 =
        (add_message st req ERROR (RecipientDoesNotExist recipient_username),
         Redirect ''transfer'')) \<and>
   (users st recipient_username = Some u \<and> get_user_account st u = Inr R \<and>
    get_user_account st (user req) = Inr S \<and> balance S < amt \<longrightarrow>
      TransferMoneyView_post st req (Some (recipient_username, amt)) now1 now2 =
        (add_message st req ERROR InsufficientBalance, Redirect ''transfer'')) \<and>
   (users st recipient_username = None \<or>
    (get_user_account st (user req) = Inr S \<and> balance S < amt) \<longrightarrow>
      accounts (fst (TransferMoneyView_post st req (Some (recipient_username, amt)) now1 now2))
        = accounts st \<and>
      transactions (fst (TransferMoneyView_post st req (Some (recipient_username, amt)) now1 now2))
        = transactions st \<and>
      outbox (fst (TransferMoneyView_post st req (Some (recipient_username, amt)) now1 now2))
        = outbox st \<and>
      snd (TransferMoneyView_post st req (Some (recipient_username, amt)) now1 now2)
        \<in> {Redirect ''transfer'', Raised RelatedObjectDoesNotExist})"
  by (auto simp: TransferMoneyView_post_def split: option.splits sum.splits
      dest: get_user_account_Inl)

text \<open>
  Alice, who holds 1000.00, sends 300.00 to the unknown carol and 2000.00 to bob.
\<close>

theorem transfer_failure_witness:
  "users ledger0 ''carol'' = None \<and>
   TransferMoneyView_post ledger0 (request_of alice) (Some (''carol'', 30000)) t0 t1 =
     (add_message ledger0 (request_of alice) ERROR (RecipientDoesNotExist ''carol''),
      Redirect ''transfer'') \<and>
   users ledger0 ''bob'' = Some bob \<and>
   get_user_account ledger0 bob = Inr \<lparr>acc_id = 2, balance = 0\<rparr> \<and>
   get_user_account ledger0 (user (request_of alice)) = Inr \<lparr>acc_id = 1, balance = 100000\<rparr> \<and>
   TransferMoneyView_post ledger0 (request_of alice) (Some (''bob'', 200000)) t0 t1 =
     (add_message ledger0 (request_of alice) ERROR InsufficientBalance, Redirect ''transfer'') \<and>
   accounts (fst (TransferMoneyView_post ledger0 (request_of alice) (Some (''bob'', 200000)) t0 t1))
     = accounts ledger0 \<and>
   transactions (fst (TransferMoneyView_post ledger0 (request_of alice) (Some (''bob'', 200000)) t0 t1))
     = transactions ledger0"
proof -
  have c: "users ledger0 ''carol'' = None"
    by (simp add: examples)
  have u: "users ledger0 ''bob'' = Some bob"
    by (simp add: examples)
  have R: "get_user_account ledger0 bob = Inr \<lparr>acc_id = 2, balance = 0\<rparr>"
    by (simp add: get_user_account_def examples)
  have S: "get_user_account ledger0 (user (request_of alice)) = Inr \<lparr>acc_id = 1, balance = 100000\<rparr>"
    by (simp add: get_user_account_def examples)
  show ?thesis
    using
      transfer_failure [where st = ledger0 and recipient_username = "''carol''"
        and req = "request_of alice" and amt = 30000 and ?now1.0 = t0 and ?now2.0 = t1]
      transfer_failure [where st = ledger0 and recipient_username = "''bob''"
        and req = "request_of alice" and amt = 200000 and ?now1.0 = t0 and ?now2.0 = t1
        and u = bob and R = "\<lparr>acc_id = 2, balance = 0\<rparr>"
        and S = "\<lparr>acc_id = 1, balance = 100000\<rparr>"]
      c u R S
    by simp
qed

text \<open>
  C7 does not hold of the code where the amount exceeds the sender's balance and the
  recipient is a user without a bank account. Line 173 reads the recipient's account
  inside the \<open>try\<close>, the exception it raises is not the \<open>User.DoesNotExist\<close> that
  line 174 catches, and the request ends in that exception before line 178 compares
  amount and balance: alice, who holds 1000.00, sending 2000.00 to dave is told nothing
  of her insufficient balance. The ledger is left as it was.
\<close>

theorem transfer_to_accountless_user_at_failing_input:
  "users ledger_dave ''dave'' = Some dave \<and>
   get_user_account ledger_dave (user (request_of alice)) = Inr \<lparr>acc_id = 1, balance = 100000\<rparr> \<and>
   (100000::int) < 200000 \<and>
   TransferMoneyView_post ledger_dave (request_of alice) (Some (''dave'', 200000)) t0 t1 =
     (ledger_dave, Raised RelatedObjectDoesNotExist) \<and>
   messages ledger_dave = []"
  by (simp add: TransferMoneyView_post_def get_user_account_def examples)

subsection \<open>Withdrawals\<close>

text \<open>
  \<open>WithdrawMoneyView.form_valid\<close> compares nothing: whatever the amount, the account
  is debited and the withdrawal is recorded.
\<close>

lemma withdraw_always_debits:
  assumes "get_user_account st (user req) = Inr a"
  shows "\<exists>st'. WithdrawMoneyView_form_valid st req amt now =
        (st', Redirect ''transaction_report'') \<and>
      accounts st' = (accounts st)(acc_id a \<mapsto> balance a - amt) \<and>
      transactions st' = transactions st @
        [\<lparr>tid = next_tid st, account = acc_id a, amount = amt,
          balance_after_transaction = balance a - amt, transaction_type = WITHDRAWAL,
          timestamp = now, loan_approve = False\<rparr>]"
  by (simp add: WithdrawMoneyView_form_valid_def super_form_valid_def assms Let_def)

text \<open>
  C2 does not hold of the code. Alice holds 1000.00 and withdraws 2000.00: the view
  answers with the redirect of a success and the success message, her balance is
  -1000.00, and a WITHDRAWAL row is written. The claim asks for an error, the balance
  unchanged and no row.
\<close>

theorem withdraw_overdraws_at_failing_input:
  "get_user_account ledger0 (user (request_of alice)) = Inr \<lparr>acc_id = 1, balance = 100000\<rparr> \<and>
   snd (WithdrawMoneyView_form_valid ledger0 (request_of alice) 200000 t0)
     = Redirect ''transaction_report'' \<and>
   accounts (fst (WithdrawMoneyView_form_valid ledger0 (request_of alice) 200000 t0)) 1
     = Some (- 100000) \<and>
   transactions (fst (WithdrawMoneyView_form_valid ledger0 (request_of alice) 200000 t0)) =
     [\<lparr>tid = 1, account = 1, amount = 200000, balance_after_transaction = - 100000,
        transaction_type = WITHDRAWAL, timestamp = t0, loan_approve = False\<rparr>] \<and>
   messages (fst (WithdrawMoneyView_form_valid ledger0 (request_of alice) 200000 t0)) =
     [\<lparr>msg_user = ''alice'', msg_level = SUCCESS, msg_text = Withdrawn 200000\<rparr>]"
  by (simp add: WithdrawMoneyView_form_valid_def get_user_account_def super_form_valid_def
      Let_def examples)

subsection \<open>Paying a loan\<close>

text \<open>
  C3, as the code has it. \<open>L\<close> is the row found under the id and \<open>b\<close> the balance of
  its account. If \<open>L\<close> is approved and its amount is below \<open>b\<close>, the account is debited
  by the amount, and the row is saved with the new balance as snapshot and the type
  LOAN_PAID, still approved; no other account changes and no message is left. If \<open>L\<close> is
  approved and its amount is at least \<open>b\<close>, the only effect is the error message. If
  \<open>L\<close> is not approved, the state is untouched and no error is reported.
\<close>

theorem pay_loan_cases:
  assumes L: "find (\<lambda>t. tid t = loan_id) (transactions st) = Some L"
    and b: "accounts st (account L) = Some b"
  shows "(loan_approve L \<and> amount L < b \<longrightarrow>
      (\<exists>st'. PayLoanView_get st req loan_id = (st', Redirect ''loan_list'') \<and>
         accounts st' = (accounts st)(account L \<mapsto> b - amount L) \<and>
         transactions st' =
           map (\<lambda>x. if tid x = loan_id
                 then L\<lparr>balance_after_transaction := b - amount L, transaction_type := LOAN_PAID\<rparr>
                 else x) (transactions st) \<and>
         find (\<lambda>t. tid t = loan_id) (transactions st') =
           Some (L\<lparr>balance_after_transaction := b - amount L, transaction_type := LOAN_PAID\<rparr>) \<and>
         messages st' = messages st)) \<and>
    (loan_approve L \<and> b \<le> amount L \<longrightarrow>
       PayLoanView_get st req loan_id =
         (add_message st req ERROR (LoanAmountGreater (amount L)), Redirect ''loan_list'')) \<and>
    (\<not> loan_approve L \<longrightarrow> PayLoanView_get st req loan_id = (st, Redirect ''loan_list''))"
proof -
  have i: "tid L = loan_id"
    using find_tid [OF L] by simp
  have upd: "loan_approve L \<Longrightarrow>
     L\<lparr>balance_after_transaction := x, loan_approve := True, transaction_type := y\<rparr> =
     L\<lparr>balance_after_transaction := x, transaction_type := y\<rparr>" for x y
    by simp
  show ?thesis
    using find_map_replace [OF L,
        of "L\<lparr>balance_after_transaction := b - amount L, transaction_type := LOAN_PAID\<rparr>"]
    by (auto simp: PayLoanView_get_def L b i upd transaction_account_def Let_def cong: if_cong)
qed

text \<open>
  The theorem of C3 at three loans of alice, who holds 1000.00: an approved loan of
  50.00, an approved loan of 2000.00 and a loan of 50.00 that is not approved.
\<close>

theorem pay_loan_cases_witness:
  "find (\<lambda>t. tid t = 1) (transactions ledger_loans) = Some (loan_row 1 5000 True) \<and>
   find (\<lambda>t. tid t = 2) (transactions ledger_loans) = Some (loan_row 2 200000 True) \<and>
   find (\<lambda>t. tid t = 3) (transactions ledger_loans) = Some (loan_row 3 5000 False) \<and>
   accounts ledger_loans 1 = Some 100000 \<and>
   accounts (fst (PayLoanView_get ledger_loans (request_of bob) 1)) 1 = Some 95000 \<and>
   find (\<lambda>t. tid t = 1) (transactions (fst (PayLoanView_get ledger_loans (request_of bob) 1))) =
     Some ((loan_row 1 5000 True)
       \<lparr>balance_after_transaction := 95000, transaction_type := LOAN_PAID\<rparr>) \<and>
   PayLoanView_get ledger_loans (request_of bob) 2 =
     (add_message ledger_loans (request_of bob) ERROR (LoanAmountGreater 200000),
      Redirect ''loan_list'') \<and>
   PayLoanView_get ledger_loans (request_of bob) 3 = (ledger_loans, Redirect ''loan_list'')"
proof -
  have L1: "find (\<lambda>t. tid t = 1) (transactions ledger_loans) = Some (loan_row 1 5000 True)"
    and L2: "find (\<lambda>t. tid t = 2) (transactions ledger_loans) = Some (loan_row 2 200000 True)"
    and L3: "find (\<lambda>t. tid t = 3) (transactions ledger_loans) = Some (loan_row 3 5000 False)"
    by (simp_all add: examples)
  have b: "accounts ledger_loans (account (loan_row i a p)) = Some 100000" for i a p
    by (simp add: examples)
  have f: "amount (loan_row i a p) = a" "loan_approve (loan_row i a p) = p"
    "account (loan_row i a p) = 1" for i a p
    by (simp_all add: examples)
  show ?thesis
    using pay_loan_cases [OF L1 b, of "request_of bob"]
      pay_loan_cases [OF L2 b, of "request_of bob"]
      pay_loan_cases [OF L3 b, of "request_of bob"] L1 L2 L3 b [of 1 5000 True]
    by (auto simp: f)
qed

text \<open>
  C3 as stated fails in its second half: a loan that is not approved and whose amount,
  2000.00, is at least the balance of 1000.00 is outside the first case, and the view
  reports no error for it; the state, messages included, is returned as it was.
\<close>

theorem pay_unapproved_loan_counterexample:
  "find (\<lambda>t. tid t = 4) (transactions ledger_loans) = Some (loan_row 4 200000 False) \<and>
   accounts ledger_loans (account (loan_row 4 200000 False)) = Some 100000 \<and>
   \<not> (loan_approve (loan_row 4 200000 False) \<and> amount (loan_row 4 200000 False) < 100000) \<and>
   amount (loan_row 4 200000 False) \<ge> 100000 \<and>
   PayLoanView_get ledger_loans (request_of alice) 4 = (ledger_loans, Redirect ''loan_list'') \<and>
   messages ledger_loans = []"
  by (simp add: PayLoanView_get_def examples)

text \<open>
  C10. Where the row \<open>L\<close> found under the loan id is approved and its amount is below
  the balance \<open>b\<close> of the account that \<open>L\<close> refers to, \<open>PayLoanView.get\<close> debits
  that account, and no other, by the amount and rewrites that row, and no other; in
  every other case balances and transactions are as before. The requester appears in
  neither: any two requests leave the same balances, the same transactions and the same
  response.
\<close>

theorem pay_loan_debits_loan_account:
  "(find (\<lambda>t. tid t = loan_id) (transactions st) = Some L \<and> loan_approve L \<and>
    accounts st (account L) = Some b \<and> amount L < b \<longrightarrow>
      accounts (fst (PayLoanView_get st req1 loan_id)) = (accounts st)(account L \<mapsto> b - amount L) \<and>
      transactions (fst (PayLoanView_get st req1 loan_id)) =
        map (\<lambda>x. if tid x = loan_id
              then L\<lparr>balance_after_transaction := b - amount L, transaction_type := LOAN_PAID\<rparr>
              else x) (transactions st)) \<and>
   (\<not> (\<exists>L b. find (\<lambda>t. tid t = loan_id) (transactions st) = Some L \<and> loan_approve L \<and>
          accounts st (account L) = Some b \<and> amount L < b) \<longrightarrow>
      accounts (fst (PayLoanView_get st req1 loan_id)) = accounts st \<and>
      transactions (fst (PayLoanView_get st req1 loan_id)) = transactions st) \<and>
   accounts (fst (PayLoanView_get st req1 loan_id)) =
     accounts (fst (PayLoanView_get st req2 loan_id)) \<and>
   transactions (fst (PayLoanView_get st req1 loan_id)) =
     transactions (fst (PayLoanView_get st req2 loan_id)) \<and>
   snd (PayLoanView_get st req1 loan_id) = snd (PayLoanView_get st req2 loan_id)"
proof -
  have upd: "loan_approve L \<Longrightarrow>
     L\<lparr>balance_after_transaction := x, loan_approve := True, transaction_type := y\<rparr> =
     L\<lparr>balance_after_transaction := x, transaction_type := y\<rparr>" for x y
    by simp
  have 1: "find (\<lambda>t. tid t = loan_id) (transactions st) = Some L \<and> loan_approve L \<and>
    accounts st (account L) = Some b \<and> amount L < b \<longrightarrow>
      accounts (fst (PayLoanView_get st req1 loan_id)) = (accounts st)(account L \<mapsto> b - amount L) \<and>
      transactions (fst (PayLoanView_get st req1 loan_id)) =
        map (\<lambda>x. if tid x = loan_id
              then L\<lparr>balance_after_transaction := b - amount L, transaction_type := LOAN_PAID\<rparr>
              else x) (transactions st)"
    by (auto simp: PayLoanView_get_def transaction_account_def Let_def upd dest: find_tid
        cong: if_cong)
  have 2: "\<not> (\<exists>L b. find (\<lambda>t. tid t = loan_id) (transactions st) = Some L \<and> loan_approve L \<and>
          accounts st (account L) = Some b \<and> amount L < b) \<longrightarrow>
      accounts (fst (PayLoanView_get st req1 loan_id)) = accounts st \<and>
      transactions (fst (PayLoanView_get st req1 loan_id)) = transactions st"
    by (auto simp: PayLoanView_get_def transaction_account_def Let_def
        split: option.splits)
  have 3: "accounts (fst (PayLoanView_get st req1 loan_id)) =
     accounts (fst (PayLoanView_get st req2 loan_id)) \<and>
   transactions (fst (PayLoanView_get st req1 loan_id)) =
     transactions (fst (PayLoanView_get st req2 loan_id)) \<and>
   snd (PayLoanView_get st req1 loan_id) = snd (PayLoanView_get st req2 loan_id)"
    by (simp add: PayLoanView_get_def Let_def split: option.splits sum.splits)
  show ?thesis
    using 1 2 3 by blast
qed

text \<open>
  The theorem of C10 at alice's approved loan of 50.00, paid on the request of bob, whose
  own account is another one, and on alice's: both times alice's account is left with
  950.00 and bob's is untouched. A loan that is not approved changes nothing.
\<close>

theorem pay_loan_debits_loan_account_witness:
  "find (\<lambda>t. tid t = 1) (transactions ledger_loans) = Some (loan_row 1 5000 True) \<and>
   loan_approve (loan_row 1 5000 True) \<and>
   accounts ledger_loans (account (loan_row 1 5000 True)) = Some 100000 \<and>
   amount (loan_row 1 5000 True) < 100000 \<and>
   account (loan_row 1 5000 True) = 1 \<and>
   account_id (user (request_of bob)) = Some 2 \<and>
   accounts (fst (PayLoanView_get ledger_loans (request_of bob) 1)) =
     (accounts ledger_loans)(1 \<mapsto> 95000) \<and>
   accounts (fst (PayLoanView_get ledger_loans (request_of bob) 1)) =
     accounts (fst (PayLoanView_get ledger_loans (request_of alice) 1)) \<and>
   transactions (fst (PayLoanView_get ledger_loans (request_of bob) 1)) =
     transactions (fst (PayLoanView_get ledger_loans (request_of alice) 1)) \<and>
   snd (PayLoanView_get ledger_loans (request_of bob) 1) =
     snd (PayLoanView_get ledger_loans (request_of alice) 1) \<and>
   \<not> (\<exists>L b. find (\<lambda>t. tid t = 3) (transactions ledger_loans) = Some L \<and> loan_approve L \<and>
          accounts ledger_loans (account L) = Some b \<and> amount L < b) \<and>
   accounts (fst (PayLoanView_get ledger_loans (request_of bob) 3)) = accounts ledger_loans \<and>
   transactions (fst (PayLoanView_get ledger_loans (request_of bob) 3)) = transactions ledger_loans"
proof -
  have L: "find (\<lambda>t. tid t = 1) (transactions ledger_loans) = Some (loan_row 1 5000 True)"
    by (simp add: examples)
  have f: "loan_approve (loan_row 1 5000 True)" "amount (loan_row 1 5000 True) = 5000"
    "account (loan_row 1 5000 True) = 1" "account_id (user (request_of bob)) = Some 2"
    by (simp_all add: examples)
  have b: "accounts ledger_loans (account (loan_row 1 5000 True)) = Some 100000"
    by (simp add: examples)
  have n: "\<not> (\<exists>L b. find (\<lambda>t. tid t = 3) (transactions ledger_loans) = Some L \<and> loan_approve L \<and>
          accounts ledger_loans (account L) = Some b \<and> amount L < b)"
    by (simp add: examples)
  note paid = pay_loan_debits_loan_account [of 1 ledger_loans "loan_row 1 5000 True" 100000
      "request_of bob" "request_of alice"]
  note unpaid = pay_loan_debits_loan_account [of 3 ledger_loans _ _
      "request_of bob" "request_of alice"]
  have "accounts (fst (PayLoanView_get ledger_loans (request_of bob) 1)) =
      (accounts ledger_loans)(account (loan_row 1 5000 True) \<mapsto>
         100000 - amount (loan_row 1 5000 True))"
    using paid L f(1) b f(2) by simp
  then have d: "accounts (fst (PayLoanView_get ledger_loans (request_of bob) 1)) =
      (accounts ledger_loans)(1 \<mapsto> 95000)"
    by (simp add: loan_row_def)
  have e: "accounts (fst (PayLoanView_get ledger_loans (request_of bob) 1)) =
       accounts (fst (PayLoanView_get ledger_loans (request_of alice) 1))"
    "transactions (fst (PayLoanView_get ledger_loans (request_of bob) 1)) =
       transactions (fst (PayLoanView_get ledger_loans (request_of alice) 1))"
    "snd (PayLoanView_get ledger_loans (request_of bob) 1) =
       snd (PayLoanView_get ledger_loans (request_of alice) 1)"
    using paid by blast+
  have u: "accounts (fst (PayLoanView_get ledger_loans (request_of bob) 3)) = accounts ledger_loans"
    "transactions (fst (PayLoanView_get ledger_loans (request_of bob) 3)) = transactions ledger_loans"
    using unpaid n by blast+
  show ?thesis
    using L f b n d e u by (intro conjI) simp_all
qed

subsection \<open>Requesting a loan\<close>

lemma count_split:
  "length (filter (\<lambda>t. P t \<and> Q t) ts) + length (filter (\<lambda>t. P t \<and> \<not> Q t) ts) =
   length (filter P ts)"
  by (induction ts) auto

text \<open>
  The count of the loan-limit check and the account's loan-type transactions without
  the flag make up all the account's loan-type transactions.
\<close>

lemma loan_count_split:
  "current_loan_count st a +
     length (filter (\<lambda>t. account t = a \<and> transaction_type t = LOAN \<and> \<not> loan_approve t)
       (transactions st))
   = length (filter (\<lambda>t. account t = a \<and> transaction_type t = LOAN) (transactions st))"
  using count_split [of "\<lambda>t. account t = a \<and> transaction_type t = 3" loan_approve
      "transactions st"]
  by (simp add: current_loan_count_def LOAN_def)

lemma HttpResponse_unbound: "lookup_name ''HttpResponse'' = Inl (NameError ''HttpResponse'')"
  by (simp add: lookup_name_def module_names_def)

text \<open>
  C4, as the code has it. What decides a loan request of the account \<open>a\<close> of the
  requesting user is the number of \<open>a\<close>'s transactions of the loan type whose approval
  flag is set: with three or more of them \<open>LoanRequestView.form_valid\<close> takes the
  branch of the limit and writes nothing, with fewer it records the request, however
  many loan-type transactions without the flag the account has.
\<close>

theorem loan_limit_check_counts_approved_only:
  assumes "get_user_account st (user req) = Inr a"
  shows "(3 \<le> length (filter (\<lambda>t. account t = acc_id a \<and> transaction_type t = LOAN \<and> loan_approve t)
              (transactions st)) \<longrightarrow>
      LoanRequestView_form_valid st req amt now = (st, Raised (NameError ''HttpResponse''))) \<and>
    (length (filter (\<lambda>t. account t = acc_id a \<and> transaction_type t = LOAN \<and> loan_approve t)
              (transactions st)) < 3 \<longrightarrow>
      (\<exists>st'. LoanRequestView_form_valid st req amt now = (st', Redirect ''transaction_report'') \<and>
         accounts st' = accounts st \<and>
         transactions st' = transactions st @
           [\<lparr>tid = next_tid st, account = acc_id a, amount = amt,
             balance_after_transaction = balance a, transaction_type = LOAN,
             timestamp = now, loan_approve = False\<rparr>]))"
  by (simp add: LoanRequestView_form_valid_def super_form_valid_def assms Let_def
      HttpResponse_unbound current_loan_count_def LOAN_def)

text \<open>
  The theorem of C4 at alice's four loans, two of them approved, where a further request
  is recorded, and at her three approved loans, where it is not.
\<close>

theorem loan_limit_check_counts_approved_only_witness:
  "get_user_account ledger_loans (user (request_of alice)) = Inr \<lparr>acc_id = 1, balance = 100000\<rparr> \<and>
   length (filter (\<lambda>t. account t = 1 \<and> transaction_type t = LOAN) (transactions ledger_loans)) = 4 \<and>
   length (filter (\<lambda>t. account t = 1 \<and> transaction_type t = LOAN \<and> loan_approve t)
     (transactions ledger_loans)) = 2 \<and>
   (\<exists>st'. LoanRequestView_form_valid ledger_loans (request_of alice) 5000 t1 =
        (st', Redirect ''transaction_report'') \<and>
      transactions st' = transactions ledger_loans @
        [\<lparr>tid = 5, account = 1, amount = 5000, balance_after_transaction = 100000,
          transaction_type = LOAN, timestamp = t1, loan_approve = False\<rparr>]) \<and>
   get_user_account ledger_three_loans (user (request_of alice)) = Inr \<lparr>acc_id = 1, balance = 100000\<rparr> \<and>
   length (filter (\<lambda>t. account t = 1 \<and> transaction_type t = LOAN \<and> loan_approve t)
     (transactions ledger_three_loans)) = 3 \<and>
   LoanRequestView_form_valid ledger_three_loans (request_of alice) 5000 t1 =
     (ledger_three_loans, Raised (NameError ''HttpResponse''))"
proof -
  have a: "get_user_account ledger_loans (user (request_of alice)) = Inr \<lparr>acc_id = 1, balance = 100000\<rparr>"
    and b: "get_user_account ledger_three_loans (user (request_of alice)) = Inr \<lparr>acc_id = 1, balance = 100000\<rparr>"
    by (simp_all add: get_user_account_def examples)
  have n: "length (filter (\<lambda>t. account t = 1 \<and> transaction_type t = LOAN) (transactions ledger_loans)) = 4"
    "length (filter (\<lambda>t. account t = 1 \<and> transaction_type t = LOAN \<and> loan_approve t)
       (transactions ledger_loans)) = 2"
    "length (filter (\<lambda>t. account t = 1 \<and> transaction_type t = LOAN \<and> loan_approve t)
       (transactions ledger_three_loans)) = 3"
    "next_tid ledger_loans = 5"
    by (simp_all add: LOAN_def examples)
  show ?thesis
    using loan_limit_check_counts_approved_only [OF a, of 5000 t1]
      loan_limit_check_counts_approved_only [OF b, of 5000 t1] a b n
    by auto
qed

text \<open>
  C4 as stated fails: alice's account has four transactions of the loan type, of which
  the check counts the two approved ones. A count of all four would have reached the
  limit of three; her request is recorded as a fifth row.
\<close>

theorem loan_count_counterexample:
  "length (filter (\<lambda>t. account t = 1 \<and> transaction_type t = LOAN) (transactions ledger_loans)) = 4
   \<and> current_loan_count ledger_loans 1 = 2
   \<and> get_user_account ledger_loans (user (request_of alice)) = Inr \<lparr>acc_id = 1, balance = 100000\<rparr>
   \<and> snd (LoanRequestView_form_valid ledger_loans (request_of alice) 5000 t1)
       = Redirect ''transaction_report''
   \<and> length (transactions (fst (LoanRequestView_form_valid ledger_loans (request_of alice) 5000 t1)))
       = 5"
  by (simp add: LoanRequestView_form_valid_def super_form_valid_def get_user_account_def
      current_loan_count_def LOAN_def Let_def examples)

text \<open>
  Below the limit a loan request adds one row of type LOAN without the approval flag;
  at the limit the view reads the name \<open>HttpResponse\<close>, which the module does not bind.
\<close>

lemma loan_request_below_limit:
  assumes "get_user_account st (user req) = Inr a" "current_loan_count st (acc_id a) < 3"
  shows "\<exists>st'. LoanRequestView_form_valid st req amt now =
        (st', Redirect ''transaction_report'') \<and>
      accounts st' = accounts st \<and>
      transactions st' = transactions st @
        [\<lparr>tid = next_tid st, account = acc_id a, amount = amt,
          balance_after_transaction = balance a, transaction_type = LOAN,
          timestamp = now, loan_approve = False\<rparr>]"
  using assms(2)
  by (simp add: LoanRequestView_form_valid_def super_form_valid_def assms(1) Let_def)

lemma loan_request_at_limit:
  assumes "get_user_account st (user req) = Inr a" "3 \<le> current_loan_count st (acc_id a)"
  shows "LoanRequestView_form_valid st req amt now = (st, Raised (NameError ''HttpResponse''))"
  using assms(2)
  by (simp add: LoanRequestView_form_valid_def assms(1) HttpResponse_unbound)

text \<open>
  C5 does not hold of the code in its first half. Alice has three approved loans and
  requests a fourth: no row is written, but the request does not end in the answer that
  the limit is crossed; it ends in the \<open>NameError\<close> of the name \<open>HttpResponse\<close>.
\<close>

theorem loan_limit_raises_name_error:
  "get_user_account ledger_three_loans (user (request_of alice))
     = Inr \<lparr>acc_id = 1, balance = 100000\<rparr> \<and>
   current_loan_count ledger_three_loans 1 = 3 \<and>
   LoanRequestView_form_valid ledger_three_loans (request_of alice) 5000 t1 =
     (ledger_three_loans, Raised (NameError ''HttpResponse''))"
  by (simp add: LoanRequestView_form_valid_def get_user_account_def current_loan_count_def
      HttpResponse_unbound examples)

subsection \<open>The transaction report\<close>

text \<open>
  Without both dates the report lists the account's own transactions and shows the
  account's balance.
\<close>

lemma report_without_range:
  assumes "get_user_account st (user req) = Inr a"
    and "\<not> (truthy (GET req ''start_date'') \<and> truthy (GET req ''end_date''))"
  shows "TransactionReportView_get_queryset strptime st req =
    Inr (filter (\<lambda>t. account t = acc_id a) (transactions st), Some (balance a))"
  using assms(2) by (auto simp: TransactionReportView_get_queryset_def assms(1) Let_def)

text \<open>
  C9. A report request carries a start date and an end date, both not empty and both
  accepted by the parser. Then \<open>get_queryset\<close> returns no rows and no balance: it ends
  in an exception, and for a user with an account the exception is the
  \<open>AttributeError\<close> of reading \<open>dend\<close> from the parsed end date.
\<close>

theorem ranged_report_raises:
  assumes "GET req ''start_date'' = Some s" "GET req ''end_date'' = Some e"
    and "s \<noteq> []" "e \<noteq> []" "strptime s = Some d1" "strptime e = Some d2"
  shows "(\<exists>x. TransactionReportView_get_queryset strptime st req = Inl x) \<and>
    (get_user_account st (user req) = Inr a \<longrightarrow>
       TransactionReportView_get_queryset strptime st req = Inl (AttributeError ''dend''))"
  using assms
  by (auto simp: TransactionReportView_get_queryset_def truthy_def str_of_def datetime_attr_def
      split: sum.splits)

text \<open>
  The theorem of C9 at alice's report of an empty ledger from 2024-01-01 to 2024-01-31.
\<close>

theorem ranged_report_raises_witness:
  "GET ranged_request ''start_date'' = Some ''2024-01-01'' \<and>
   GET ranged_request ''end_date'' = Some ''2024-01-31'' \<and>
   ''2024-01-01'' \<noteq> [] \<and> ''2024-01-31'' \<noteq> [] \<and>
   example_strptime ''2024-01-01'' = Some t0 \<and>
   example_strptime ''2024-01-31'' = Some t1 \<and>
   get_user_account ledger0 (user ranged_request) = Inr \<lparr>acc_id = 1, balance = 100000\<rparr> \<and>
   TransactionReportView_get_queryset example_strptime ledger0 ranged_request =
     Inl (AttributeError ''dend'')"
proof -
  have g: "GET ranged_request ''start_date'' = Some ''2024-01-01''"
    "GET ranged_request ''end_date'' = Some ''2024-01-31''"
    by (simp_all add: ranged_request_def)
  have n: "''2024-01-01'' \<noteq> []" "''2024-01-31'' \<noteq> []"
    by simp_all
  have p: "example_strptime ''2024-01-01'' = Some t0" "example_strptime ''2024-01-31'' = Some t1"
    by (simp_all add: example_strptime_def)
  have a: "get_user_account ledger0 (user ranged_request) = Inr \<lparr>acc_id = 1, balance = 100000\<rparr>"
    by (simp add: get_user_account_def examples)
  show ?thesis
    using ranged_report_raises [OF g n p, of ledger0 "\<lparr>acc_id = 1, balance = 100000\<rparr>"] g p a
    by simp
qed

text \<open>
  C6 does not hold of the code in its first half. Alice asks for the report of
  2024-01-01 to 2024-01-31 over a ledger whose four transactions of that range sum to
  4100.00. The claim asks for 4100.00 as the displayed balance; the code ends in the
  \<open>AttributeError\<close> of \<open>dend\<close> and displays nothing.
\<close>

theorem ranged_report_at_failing_input:
  "aggregate_Sum_amount
     (filter (in_range (dt_date t0) (dt_date t1)) (transactions ledger_loans)) = Some 410000 \<and>
   TransactionReportView_get_queryset example_strptime ledger_loans ranged_request =
     Inl (AttributeError ''dend'')"
  by (simp add: TransactionReportView_get_queryset_def get_user_account_def truthy_def
      str_of_def datetime_attr_def aggregate_Sum_amount_def in_range_def examples)

subsection \<open>Rows once written\<close>





























end
